theory Spec2Isabelle
  imports Main "HOL-Library.Word" "HOL-Library.Sublist"
begin

unbundle bit_operations_syntax

section \<open>JavaScript values and JSON.stringify with the replacer of hash\<close>

text \<open>
  The values a session holds, as \<^verbatim>\<open>JSON.stringify\<close> sees them after \<^verbatim>\<open>toJSON\<close> has been
  applied. An object is the list of its enumerable own properties in the order
  \<^verbatim>\<open>JSON.stringify\<close> walks them in: insertion order for the keys that are not array
  indices. A string is the sequence of its UTF-8 bytes
  (what \<^verbatim>\<open>crc32\<close> reads). Numbers are the integer-valued ones, printed in decimal; a
  non-finite number serialises as \<^verbatim>\<open>null\<close> and is \<open>JNull\<close> here. \<open>JUndefined\<close> stands for
  \<^verbatim>\<open>undefined\<close> and for functions, which \<^verbatim>\<open>JSON.stringify\<close> treats alike.
\<close>

datatype jsval =
    JUndefined
  | JNull
  | JBool bool
  | JNum int
  | JStr string
  | JArr "jsval list"
  | JObj "(string \<times> jsval) list"

type_synonym jsobject = "(string \<times> jsval) list"

definition digit_char :: "nat \<Rightarrow> char" where
  "digit_char d = ''0123456789'' ! d"

function show_nat :: "nat \<Rightarrow> string" where
  "show_nat n = (if n < 10 then [digit_char n] else show_nat (n div 10) @ [digit_char (n mod 10)])"
  by pat_completeness auto
termination
  by (relation "measure (\<lambda>n. n)") auto

declare show_nat.simps [simp del]

definition show_int :: "int \<Rightarrow> string" where
  "show_int i = (if i < 0 then CHR ''-'' # show_nat (nat (- i)) else show_nat (nat i))"

definition hex_char :: "nat \<Rightarrow> char" where
  "hex_char d = ''0123456789abcdef'' ! d"

text \<open>QuoteJSONString: the two-character escapes, \<^verbatim>\<open>\u00XX\<close> for the other control characters.\<close>

definition escape_char :: "char \<Rightarrow> string" where
  "escape_char c =
     (let n = (of_char c :: nat) in
      if n = 0x22 then [CHR 0x5C, CHR 0x22]
      else if n = 0x5C then [CHR 0x5C, CHR 0x5C]
      else if n = 0x08 then [CHR 0x5C, CHR ''b'']
      else if n = 0x0C then [CHR 0x5C, CHR ''f'']
      else if n = 0x0A then [CHR 0x5C, CHR ''n'']
      else if n = 0x0D then [CHR 0x5C, CHR ''r'']
      else if n = 0x09 then [CHR 0x5C, CHR ''t'']
      else if n < 0x20 then [CHR 0x5C, CHR ''u'', CHR ''0'', CHR ''0'', hex_char (n div 16), hex_char (n mod 16)]
      else [c])"

definition quote :: "string \<Rightarrow> string" where
  "quote s = CHR 0x22 # concat (map escape_char s) @ [CHR 0x22]"

fun join :: "string \<Rightarrow> string list \<Rightarrow> string" where
  "join sep [] = []"
| "join sep [x] = x"
| "join sep (x # y # ys) = x @ sep @ join sep (y # ys)"

text \<open>
  SerializeJSONProperty, SerializeJSONObject and SerializeJSONArray of ECMAScript, with the
  replacer hash passes to \<^verbatim>\<open>JSON.stringify\<close>:
  \<^verbatim>\<open>function(key, val){ if ('cookie' != key) return val; }\<close>
  It returns \<^verbatim>\<open>undefined\<close> for the key \<^verbatim>\<open>cookie\<close>, at every depth (first equation). A property
  whose value serialises to \<^verbatim>\<open>undefined\<close> is left out of an object and is \<^verbatim>\<open>null\<close> in an
  array; the key of an array element is its index in decimal.
\<close>

fun serialize_property :: "string \<Rightarrow> jsval \<Rightarrow> string option"
  and serialize_value :: "jsval \<Rightarrow> string option"
  and serialize_members :: "(string \<times> jsval) list \<Rightarrow> string list"
  and serialize_elements :: "nat \<Rightarrow> jsval list \<Rightarrow> string list"
where
  "serialize_property key val = (if ''cookie'' \<noteq> key then serialize_value val else None)"
| "serialize_value JUndefined = None"
| "serialize_value JNull = Some ''null''"
| "serialize_value (JBool b) = Some (if b then ''true'' else ''false'')"
| "serialize_value (JNum n) = Some (show_int n)"
| "serialize_value (JStr s) = Some (quote s)"
| "serialize_value (JArr xs) = Some (''['' @ join '','' (serialize_elements 0 xs) @ '']'')"
| "serialize_value (JObj ps) = Some (''{'' @ join '','' (serialize_members ps) @ ''}'')"
| "serialize_members [] = []"
| "serialize_members (p # ps) =
     (case serialize_property (fst p) (snd p) of
        None \<Rightarrow> serialize_members ps
      | Some s \<Rightarrow> (quote (fst p) @ '':'' @ s) # serialize_members ps)"
| "serialize_elements i [] = []"
| "serialize_elements i (x # xs) =
     (case serialize_property (show_nat i) x of None \<Rightarrow> ''null'' | Some s \<Rightarrow> s)
       # serialize_elements (Suc i) xs"

text \<open>
  \<^verbatim>\<open>JSON.stringify(sess, replacer)\<close> for an object \<open>sess\<close>: the wrapper's key is the empty
  string, which the replacer lets through, so the result is the serialisation of the object.
\<close>

definition JSON_stringify :: "jsobject \<Rightarrow> string" where
  "JSON_stringify sess = ''{'' @ join '','' (serialize_members sess) @ ''}''"

section \<open>crc32.signed of buffer-crc32\<close>

text \<open>
  The table-driven CRC-32 (reflected polynomial \<^verbatim>\<open>0xEDB88320\<close>): entry \<open>n\<close> of the table is
  eight shift-and-xor steps on \<open>n\<close>; the checksum starts from \<^verbatim>\<open>~0\<close>, takes each byte with
  \<^verbatim>\<open>TABLE[(crc ^ byte) & 0xff] ^ (crc >>> 8)\<close> and is complemented at the end. \<^verbatim>\<open>signed\<close> reads
  the 32 bits as a two's complement integer.
\<close>

definition crc_step :: "32 word \<Rightarrow> 32 word" where
  "crc_step c = (if bit c 0 then drop_bit 1 c XOR 0xEDB88320 else drop_bit 1 c)"

definition crc_table :: "32 word \<Rightarrow> 32 word" where
  "crc_table n = (crc_step ^^ 8) n"

definition crc_update :: "32 word \<Rightarrow> char \<Rightarrow> 32 word" where
  "crc_update crc byte = crc_table ((crc XOR of_nat (of_char byte)) AND 0xFF) XOR drop_bit 8 crc"

definition crc32 :: "string \<Rightarrow> 32 word" where
  "crc32 buf = foldl crc_update 0xFFFFFFFF buf XOR 0xFFFFFFFF"

definition crc32_signed :: "string \<Rightarrow> int" where
  "crc32_signed buf = sint (crc32 buf)"

section \<open>hash\<close>

text \<open>
  \<^verbatim>\<open>function hash(sess) { return crc32.signed(JSON.stringify(sess, function(key, val){
       if ('cookie' != key) return val; })); }\<close>
\<close>

definition hash :: "jsobject \<Rightarrow> int" where
  "hash sess = crc32_signed (JSON_stringify sess)"

section \<open>Cookie and Session\<close>

text \<open>
  Modelled from the spec: the Cookie class (session/cookie.js is not among the sources). Its
  attributes are those of the data model: \<open>expires\<close> is an absolute time in milliseconds or
  \<^verbatim>\<open>null\<close> for a session-only cookie, \<open>originalMaxAge\<close> the configured duration.
\<close>

record Cookie =
  path :: string
  domain :: "string option"
  httpOnly :: bool
  secure :: bool
  sameSite :: "string option"
  expires :: "int option"
  originalMaxAge :: "int option"

text \<open>The \<^verbatim>\<open>cookie\<close> option of the middleware: every attribute may be left out.\<close>

record cookie_options =
  opt_path :: "string option"
  opt_domain :: "string option"
  opt_httpOnly :: "bool option"
  opt_secure :: "bool option"
  opt_sameSite :: "string option"
  opt_maxAge :: "int option"

text \<open>
  Modelled from the spec: the Cookie constructor, \<^verbatim>\<open>new Cookie(options)\<close>. The defaults are
  path \<^verbatim>\<open>/\<close>, httpOnly true, secure false, no maxAge; a maxAge sets
  \<open>expires = now + maxAge\<close> and is kept as \<open>originalMaxAge\<close>.
\<close>

definition new_Cookie :: "int \<Rightarrow> cookie_options \<Rightarrow> Cookie" where
  "new_Cookie now opts =
     \<lparr> path = (case opt_path opts of None \<Rightarrow> ''/'' | Some p \<Rightarrow> p),
       domain = opt_domain opts,
       httpOnly = (case opt_httpOnly opts of None \<Rightarrow> True | Some b \<Rightarrow> b),
       secure = (case opt_secure opts of None \<Rightarrow> False | Some b \<Rightarrow> b),
       sameSite = opt_sameSite opts,
       expires = map_option (\<lambda>ms. now + ms) (opt_maxAge opts),
       originalMaxAge = opt_maxAge opts \<rparr>"

definition opt_json :: "('a \<Rightarrow> jsval) \<Rightarrow> 'a option \<Rightarrow> jsval" where
  "opt_json f x = (case x of None \<Rightarrow> JNull | Some v \<Rightarrow> f v)"

text \<open>
  Modelled from the spec: what \<^verbatim>\<open>toJSON\<close> of a Cookie gives to \<^verbatim>\<open>JSON.stringify\<close>, the
  attribute set of the cookie.
\<close>

definition Cookie_toJSON :: "Cookie \<Rightarrow> jsval" where
  "Cookie_toJSON c =
     JObj [(''originalMaxAge'', opt_json JNum (originalMaxAge c)),
           (''expires'', opt_json JNum (expires c)),
           (''secure'', JBool (secure c)),
           (''httpOnly'', JBool (httpOnly c)),
           (''domain'', opt_json JStr (domain c)),
           (''path'', JStr (path c)),
           (''sameSite'', opt_json JStr (sameSite c))]"

text \<open>
  Modelled from the spec: the Session class (session/session.js is not among the sources): an
  id, an owned Cookie and the application's data. The id is not an enumerable property, so
  the enumerable own properties, which \<^verbatim>\<open>JSON.stringify\<close> walks, are \<^verbatim>\<open>cookie\<close> and the data.
\<close>

record Session =
  sess_id :: string
  cookie :: Cookie
  data :: jsobject

definition own_props :: "Session \<Rightarrow> jsobject" where
  "own_props sess = (''cookie'', Cookie_toJSON (cookie sess)) # data sess"

text \<open>
  Modelled from the spec: \<^verbatim>\<open>resetMaxAge\<close> of a Session: with an \<open>originalMaxAge\<close> the cookie's
  \<open>expires\<close> becomes \<open>now + originalMaxAge\<close>, else it is left as it is.
\<close>

definition resetMaxAge :: "int \<Rightarrow> Session \<Rightarrow> Session" where
  "resetMaxAge now sess =
     (case originalMaxAge (cookie sess) of
        None \<Rightarrow> sess
      | Some ms \<Rightarrow> sess\<lparr>cookie := (cookie sess)\<lparr>expires := Some (now + ms)\<rparr>\<rparr>)"

section \<open>Request, options and configuration\<close>

record connection =
  encrypted :: bool

text \<open>
  The parts of the request the middleware reads and writes. \<open>req_secure\<close> is \<^verbatim>\<open>req.secure\<close>
  when it is a boolean, \<open>cookies\<close> is what \<^verbatim>\<open>req.cookies.get\<close> answers, \<open>pathname\<close> is
  \<^verbatim>\<open>parse(req.originalUrl || req.url).pathname\<close>.
\<close>

record request =
  sessionID :: "string option"
  session :: "Session option"
  cookies :: "string \<rightharpoonup> string"
  connection :: "connection option"
  req_secure :: "bool option"
  headers :: "string \<rightharpoonup> string"
  pathname :: string

text \<open>
  The \<^verbatim>\<open>genid\<close> option: left out or falsy (the default generator is taken), a function, or
  a truthy value that is not a function.
\<close>

datatype genid_option = GenidUndefined | GenidFunction "request \<Rightarrow> string" | GenidOther

record options =
  o_name :: "string option"
  o_key :: "string option"
  o_cookie :: "cookie_options option"
  o_proxy :: "bool option"
  o_rolling :: "bool option"
  o_resave :: "bool option"
  o_saveUninitialized :: "bool option"
  o_genid :: genid_option
  o_unset :: "string option"

record config =
  name :: string
  cookie_opts :: cookie_options
  trustProxy :: "bool option"
  rollingSessions :: bool
  resaveSession :: bool
  saveUninitializedSession :: bool
  unsetDestroy :: bool
  generateId :: "request \<Rightarrow> string"

text \<open>The two \<^verbatim>\<open>TypeError\<close>s that \<^verbatim>\<open>session(options)\<close> throws.\<close>

datatype config_error = GenidNotFunction | UnsetInvalid

text \<open>Truthiness of a value that is a string or \<^verbatim>\<open>undefined\<close>: the empty string is falsy.\<close>

definition truthy :: "string option \<Rightarrow> bool" where
  "truthy s = (case s of None \<Rightarrow> False | Some v \<Rightarrow> v \<noteq> [])"

text \<open>\<^verbatim>\<open>a || b\<close> for a string or \<^verbatim>\<open>undefined\<close> on the left and a string on the right.\<close>

definition or_else :: "string option \<Rightarrow> string \<Rightarrow> string" where
  "or_else a b = (case a of None \<Rightarrow> b | Some v \<Rightarrow> if v = [] then b else v)"

definition no_cookie_options :: cookie_options where
  "no_cookie_options =
     \<lparr> opt_path = None, opt_domain = None, opt_httpOnly = None, opt_secure = None,
       opt_sameSite = None, opt_maxAge = None \<rparr>"

text \<open>
  \<^verbatim>\<open>function session(options)\<close> up to the point where it returns the middleware: the
  defaults and the two configuration errors. \<open>generateSessionId\<close> is the default id
  generator, \<^verbatim>\<open>uid(24)\<close>.
\<close>

definition session_setup :: "(request \<Rightarrow> string) \<Rightarrow> options \<Rightarrow> config_error + config" where
  "session_setup generateSessionId opts =
     (if o_genid opts = GenidOther then Inl GenidNotFunction
      else if truthy (o_unset opts) \<and> o_unset opts \<noteq> Some ''destroy'' \<and> o_unset opts \<noteq> Some ''keep''
      then Inl UnsetInvalid
      else Inr
        \<lparr> name = or_else (o_name opts) (or_else (o_key opts) ''connect.sid''),
          cookie_opts = (case o_cookie opts of None \<Rightarrow> no_cookie_options | Some c \<Rightarrow> c),
          trustProxy = o_proxy opts,
          rollingSessions = (case o_rolling opts of None \<Rightarrow> False | Some b \<Rightarrow> b),
          resaveSession = (case o_resave opts of None \<Rightarrow> True | Some b \<Rightarrow> b),
          saveUninitializedSession = (case o_saveUninitialized opts of None \<Rightarrow> True | Some b \<Rightarrow> b),
          unsetDestroy = (o_unset opts = Some ''destroy''),
          generateId = (case o_genid opts of GenidFunction f \<Rightarrow> f | _ \<Rightarrow> generateSessionId) \<rparr>)"

section \<open>issecure\<close>

text \<open>
  The string operations of \<^verbatim>\<open>issecure\<close> on a header value, whose characters are the code
  units 0 to 255: \<^verbatim>\<open>indexOf\<close> (\<open>-1\<close> when the string does not occur), \<^verbatim>\<open>substr(0, n)\<close>,
  \<^verbatim>\<open>toLowerCase\<close> and \<^verbatim>\<open>trim\<close>.
\<close>

fun indexOf :: "string \<Rightarrow> string \<Rightarrow> int" where
  "indexOf [] p = (if p = [] then 0 else - 1)"
| "indexOf (x # xs) p =
     (if prefix p (x # xs) then 0
      else (let i = indexOf xs p in if i = - 1 then - 1 else i + 1))"

definition substr0 :: "string \<Rightarrow> int \<Rightarrow> string" where
  "substr0 s n = take (nat n) s"

definition lower_char :: "char \<Rightarrow> char" where
  "lower_char c =
     (let n = (of_char c :: nat) in
      if (0x41 \<le> n \<and> n \<le> 0x5A) \<or> (0xC0 \<le> n \<and> n \<le> 0xDE \<and> n \<noteq> 0xD7)
      then char_of (n + 32) else c)"

definition toLowerCase :: "string \<Rightarrow> string" where
  "toLowerCase s = map lower_char s"

definition is_space :: "char \<Rightarrow> bool" where
  "is_space c = ((of_char c :: nat) \<in> {0x09, 0x0A, 0x0B, 0x0C, 0x0D, 0x20, 0xA0})"

definition trim :: "string \<Rightarrow> string" where
  "trim s = rev (dropWhile is_space (rev (dropWhile is_space s)))"

text \<open>\<^verbatim>\<open>req.connection && req.connection.encrypted\<close>\<close>

definition connection_encrypted :: "request \<Rightarrow> bool" where
  "connection_encrypted req = (case connection req of None \<Rightarrow> False | Some c \<Rightarrow> encrypted c)"

definition issecure :: "request \<Rightarrow> bool option \<Rightarrow> bool" where
  "issecure req trust =
     (if connection_encrypted req then True
      else if trust = Some False then False
      else if trust \<noteq> Some True then (case req_secure req of Some b \<Rightarrow> b | None \<Rightarrow> False)
      else
        (let header = or_else (headers req ''x-forwarded-proto'') [];
             index = indexOf header '','';
             proto = (if index \<noteq> - 1 then trim (toLowerCase (substr0 header index))
                      else trim (toLowerCase header))
         in proto = ''https''))"

section \<open>The middleware: one request\<close>

text \<open>
  The variables the closures of one middleware call share: \<open>cookieId\<close>, \<open>originalId\<close>,
  \<open>originalHash\<close> (\<open>None\<close> for \<^verbatim>\<open>undefined\<close>) and the \<open>ended\<close> flag of the overridden
  \<^verbatim>\<open>res.end\<close>.
\<close>

record closure =
  cookieId :: "string option"
  originalId :: "string option"
  originalHash :: "int option"
  ended :: bool

record store_error =
  code :: "string option"
  stack :: string

text \<open>
  What the store reports to the callback of \<^verbatim>\<open>get\<close>: an error, no session (a falsy
  \<^verbatim>\<open>sess\<close>), or the stored cookie and data.
\<close>

datatype get_reply = GetError store_error | GetNone | GetFound Cookie jsobject

text \<open>
  How the store answers \<^verbatim>\<open>destroy\<close> and \<^verbatim>\<open>set\<close>: it runs the callback once, with or
  without an error, either before the call returns (\<open>Sync\<close>) or later (\<open>Async\<close>).
\<close>

datatype reply = Sync "store_error option" | Async "store_error option"

text \<open>
  What the middleware does to its collaborators, in the order it does it: calls of
  \<^verbatim>\<open>next\<close>, of the store, of \<^verbatim>\<open>console.error\<close>, of \<^verbatim>\<open>res.write\<close> and of the original
  \<^verbatim>\<open>end\<close> (with chunk and encoding, or with no argument), and of \<^verbatim>\<open>res.cookies.set\<close>.
  \<open>StoreCallback\<close> marks the moment the store runs the callback it was given.
\<close>

datatype event =
    Next "store_error option"
  | StoreGet string
  | StoreDestroy "string option"
  | StoreSet string Session
  | StoreCallback "store_error option"
  | ConsoleError string
  | Write string "string option"
  | End "(string \<times> string option) option"
  | SetCookie string "string option"

definition getcookie :: "request \<Rightarrow> string \<Rightarrow> string option" where
  "getcookie req nm = cookies req nm"

text \<open>
  \<^verbatim>\<open>store.generate\<close> followed by the two snapshots, as in \<^verbatim>\<open>generate()\<close>. Session and Cookie
  are built as the spec describes them: the id of the request, the configured cookie, no data.
\<close>

definition store_generate :: "config \<Rightarrow> int \<Rightarrow> request \<Rightarrow> request" where
  "store_generate cfg now req =
     (let sid = generateId cfg req in
      req\<lparr> sessionID := Some sid,
           session := Some \<lparr> sess_id = sid, cookie = new_Cookie now (cookie_opts cfg), data = [] \<rparr> \<rparr>)"

definition generate :: "config \<Rightarrow> int \<Rightarrow> request \<Rightarrow> closure \<Rightarrow> request \<times> closure" where
  "generate cfg now req cl =
     (let req' = store_generate cfg now req in
      (req', cl\<lparr> originalId := sessionID req',
                originalHash := map_option (\<lambda>sess. hash (own_props sess)) (session req') \<rparr>))"

text \<open>
  Modelled from the spec: \<^verbatim>\<open>store.createSession(req, sess)\<close> (session/store.js is not among
  the sources) attaches a Session with the id of the request and the loaded cookie and data.
\<close>

definition createSession :: "request \<Rightarrow> Cookie \<Rightarrow> jsobject \<Rightarrow> request" where
  "createSession req c d =
     req\<lparr> session := Some \<lparr> sess_id = (case sessionID req of None \<Rightarrow> [] | Some sid \<Rightarrow> sid),
                             cookie = c, data = d \<rparr> \<rparr>"

definition isModified :: "closure \<Rightarrow> Session \<Rightarrow> bool" where
  "isModified cl sess =
     (originalHash cl \<noteq> Some (hash (own_props sess)) \<or> originalId cl \<noteq> Some (sess_id sess))"

definition shouldDestroy :: "config \<Rightarrow> request \<Rightarrow> bool" where
  "shouldDestroy cfg req = (truthy (sessionID req) \<and> unsetDestroy cfg \<and> session req = None)"

text \<open>
  \<^verbatim>\<open>shouldSave\<close> and \<^verbatim>\<open>shouldSetCookie\<close> read \<^verbatim>\<open>req.session\<close>; both callers have checked that
  it is an object, and pass it here as \<open>sess\<close>.
\<close>

definition shouldSave :: "config \<Rightarrow> closure \<Rightarrow> request \<Rightarrow> Session \<Rightarrow> bool" where
  "shouldSave cfg cl req sess =
     (if cookieId cl \<noteq> sessionID req
      then saveUninitializedSession cfg \<or> isModified cl sess
      else resaveSession cfg \<or> isModified cl sess)"

definition shouldSetCookie :: "config \<Rightarrow> closure \<Rightarrow> request \<Rightarrow> Session \<Rightarrow> bool" where
  "shouldSetCookie cfg cl req sess =
     (if rollingSessions cfg then True
      else if cookieId cl \<noteq> sessionID req
      then saveUninitializedSession cfg \<or> isModified cl sess
      else expires (cookie sess) \<noteq> None \<and> isModified cl sess)"

text \<open>The listener given to \<^verbatim>\<open>onHeaders\<close>: the calls of \<^verbatim>\<open>setcookie\<close> it makes.\<close>

definition on_headers :: "config \<Rightarrow> closure \<Rightarrow> request \<Rightarrow> event list" where
  "on_headers cfg cl req =
     (case session req of
        None \<Rightarrow> []
      | Some sess \<Rightarrow>
          if secure (cookie sess) \<and> \<not> issecure req (trustProxy cfg) then []
          else if \<not> shouldSetCookie cfg cl req sess then []
          else [SetCookie (name cfg) (sessionID req)])"

text \<open>
  The middleware function up to the call of \<^verbatim>\<open>next\<close>. \<open>storeReady\<close> is the flag the
  \<^verbatim>\<open>connect\<close> and \<^verbatim>\<open>disconnect\<close> events of the store keep, \<open>store_get\<close> what the store
  reports for an id. The closure of the result is \<open>None\<close> when the middleware returned before
  it installed the header listener and the override of \<^verbatim>\<open>res.end\<close>.
\<close>

record mw_result =
  mw_req :: request
  mw_closure :: "closure option"
  mw_trace :: "event list"

definition session_mw ::
  "config \<Rightarrow> bool \<Rightarrow> int \<Rightarrow> (string \<Rightarrow> get_reply) \<Rightarrow> request \<Rightarrow> mw_result" where
  "session_mw cfg storeReady now store_get req =
     (if session req \<noteq> None then \<lparr> mw_req = req, mw_closure = None, mw_trace = [Next None] \<rparr>
      else if \<not> storeReady then \<lparr> mw_req = req, mw_closure = None, mw_trace = [Next None] \<rparr>
      else if 0 \<noteq> indexOf (pathname req) (or_else (opt_path (cookie_opts cfg)) ''/'')
      then \<lparr> mw_req = req, mw_closure = None, mw_trace = [Next None] \<rparr>
      else
        (let cid = getcookie req (name cfg);
             req1 = req\<lparr> sessionID := cid \<rparr>;
             cl = \<lparr> cookieId = cid, originalId = None, originalHash = None, ended = False \<rparr>
         in if \<not> truthy (sessionID req1)
            then (let (req2, cl2) = generate cfg now req1 cl
                  in \<lparr> mw_req = req2, mw_closure = Some cl2, mw_trace = [Next None] \<rparr>)
            else
               (let sid = or_else (sessionID req1) []
                in case store_get sid of
                   GetError err \<Rightarrow>
                     if Some ''ENOENT'' = code err
                     then (let (req2, cl2) = generate cfg now req1 cl
                           in \<lparr> mw_req = req2, mw_closure = Some cl2,
                                mw_trace = [StoreGet sid, Next None] \<rparr>)
                     else \<lparr> mw_req = req1, mw_closure = Some cl,
                            mw_trace = [StoreGet sid, Next (Some err)] \<rparr>
                 | GetNone \<Rightarrow>
                     (let (req2, cl2) = generate cfg now req1 cl
                      in \<lparr> mw_req = req2, mw_closure = Some cl2,
                           mw_trace = [StoreGet sid, Next None] \<rparr>)
                 | GetFound c d \<Rightarrow>
                     (let req2 = createSession req1 c d
                      in \<lparr> mw_req = req2,
                           mw_closure = Some (cl\<lparr> originalId := sessionID req2,
                                                  originalHash := Some (hash ((''cookie'', Cookie_toJSON c) # d)) \<rparr>),
                           mw_trace = [StoreGet sid, Next None] \<rparr>))))"

section \<open>The overridden res.end\<close>

text \<open>
  The state one response carries between the calls of its hooks: the request, the closure
  variables, and whether the headers have gone out. The header listener runs once, just
  before the first \<^verbatim>\<open>res.write\<close> or \<^verbatim>\<open>end\<close> that sends the headers.
\<close>

record mw_state =
  st_req :: request
  st_closure :: closure
  headersSent :: bool

text \<open>
  What the surroundings decide during one call of \<^verbatim>\<open>res.end\<close>: the time, how the store
  answers, and what the original \<^verbatim>\<open>end\<close> and \<^verbatim>\<open>res.write\<close> return.
\<close>

record env =
  clock :: int
  store_reply :: reply
  end_returns :: bool
  write_returns :: bool

record end_result =
  ret :: bool
  trace :: "event list"
  after :: mw_state

text \<open>\<^verbatim>\<open>if (err) console.error(err.stack);\<close>\<close>

definition console_error :: "store_error option \<Rightarrow> event list" where
  "console_error err = (case err of None \<Rightarrow> [] | Some e \<Rightarrow> [ConsoleError (stack e)])"

text \<open>A call that writes to the response, with the header listener before it when due.\<close>

definition respond :: "config \<Rightarrow> mw_state \<Rightarrow> event \<Rightarrow> event list" where
  "respond cfg s e =
     (if headersSent s then [] else on_headers cfg (st_closure s) (st_req s)) @ [e]"

text \<open>
  The store call of the destroy branch and of the save branch with its callback, which is
  the same in both. When the callback runs before the store call returns, \<^verbatim>\<open>sync\<close> is still
  true in it: it ends the response with chunk and encoding, and nothing is written
  afterwards. Otherwise the chunk is written when the store call returns and the callback
  ends the response later, with no argument. The result is what \<^verbatim>\<open>res.end\<close> returns and
  the calls made.
\<close>

definition commit ::
  "config \<Rightarrow> env \<Rightarrow> mw_state \<Rightarrow> event \<Rightarrow> string \<Rightarrow> string option \<Rightarrow> bool \<times> event list" where
  "commit cfg ev s store_call chunk encoding =
     (case store_reply ev of
        Sync err \<Rightarrow>
          (end_returns ev,
           [store_call, StoreCallback err] @ console_error err
             @ respond cfg s (End (Some (chunk, encoding))))
      | Async err \<Rightarrow>
          (write_returns ev,
           [store_call] @ respond cfg s (Write chunk encoding)
             @ [StoreCallback err] @ console_error err @ [End None]))"

text \<open>
  Modelled from the spec: \<^verbatim>\<open>req.session.save(callback)\<close> writes the session to the store
  under its id.
\<close>

definition session_save :: "Session \<Rightarrow> event" where
  "session_save sess = StoreSet (sess_id sess) sess"

definition res_end ::
  "config \<Rightarrow> env \<Rightarrow> mw_state \<Rightarrow> string option \<Rightarrow> string option \<Rightarrow> end_result" where
  "res_end cfg ev s chunk encoding =
     (if ended (st_closure s) then \<lparr> ret = False, trace = [], after = s \<rparr>
      else
        (let chunk' = (case chunk of None \<Rightarrow> [] | Some c \<Rightarrow> c);
             s1 = s\<lparr> st_closure := (st_closure s)\<lparr> ended := True \<rparr> \<rparr>
         in if shouldDestroy cfg (st_req s1)
            then (let (r, t) = commit cfg ev s1 (StoreDestroy (sessionID (st_req s1))) chunk' encoding
                  in \<lparr> ret = r, trace = t, after = s1\<lparr> headersSent := True \<rparr> \<rparr>)
            else
              (case session (st_req s1) of
                 None \<Rightarrow>
                   \<lparr> ret = end_returns ev,
                     trace = respond cfg s1 (End (Some (chunk', encoding))),
                     after = s1\<lparr> headersSent := True \<rparr> \<rparr>
               | Some sess \<Rightarrow>
                   (let sess' = resetMaxAge (clock ev) sess;
                        s2 = s1\<lparr> st_req := (st_req s1)\<lparr> session := Some sess' \<rparr> \<rparr>
                    in if shouldSave cfg (st_closure s2) (st_req s2) sess'
                       then (let (r, t) = commit cfg ev s2 (session_save sess') chunk' encoding
                             in \<lparr> ret = r, trace = t, after = s2\<lparr> headersSent := True \<rparr> \<rparr>)
                       else
                         \<lparr> ret = end_returns ev,
                           trace = respond cfg s2 (End (Some (chunk', encoding))),
                           after = s2\<lparr> headersSent := True \<rparr> \<rparr>))))"

text \<open>Recognisers for the calls the claims are about.\<close>

fun is_StoreSet :: "event \<Rightarrow> bool" where
  "is_StoreSet (StoreSet i x) = True"
| "is_StoreSet e = False"

fun is_StoreDestroy :: "event \<Rightarrow> bool" where
  "is_StoreDestroy (StoreDestroy i) = True"
| "is_StoreDestroy e = False"

fun is_End :: "event \<Rightarrow> bool" where
  "is_End (End a) = True"
| "is_End e = False"

fun is_SetCookie :: "event \<Rightarrow> bool" where
  "is_SetCookie (SetCookie n v) = True"
| "is_SetCookie e = False"

fun is_Next :: "event \<Rightarrow> bool" where
  "is_Next (Next err) = True"
| "is_Next e = False"

section \<open>The handler between the middleware and res.end\<close>

text \<open>
  What the handler does to the response state before it ends the response: it assigns
  \<^verbatim>\<open>req.session\<close> (an object or \<^verbatim>\<open>null\<close>), or it calls \<^verbatim>\<open>res.write\<close>, which is not
  overridden: the headers go out with the first write, and the header listener runs just
  before them.
\<close>

datatype action = Assign "Session option" | WriteChunk string "string option"

fun is_Assign :: "action \<Rightarrow> bool" where
  "is_Assign (Assign v) = True"
| "is_Assign a = False"

fun write_event :: "action \<Rightarrow> event list" where
  "write_event (Assign v) = []"
| "write_event (WriteChunk chunk encoding) = [Write chunk encoding]"

fun handler :: "config \<Rightarrow> mw_state \<Rightarrow> action list \<Rightarrow> event list \<times> mw_state" where
  "handler cfg s [] = ([], s)"
| "handler cfg s (Assign v # as) = handler cfg (s\<lparr> st_req := (st_req s)\<lparr> session := v \<rparr> \<rparr>) as"
| "handler cfg s (WriteChunk chunk encoding # as) =
     (let r = handler cfg (s\<lparr> headersSent := True \<rparr>) as
      in (respond cfg s (Write chunk encoding) @ fst r, snd r))"

text \<open>
  Everything done to the collaborators for one response, from the state the middleware
  leaves: the handler's actions, then its call of \<^verbatim>\<open>res.end\<close>.
\<close>

definition response_trace ::
  "config \<Rightarrow> env \<Rightarrow> mw_state \<Rightarrow> action list \<Rightarrow> string option \<Rightarrow> string option \<Rightarrow> event list" where
  "response_trace cfg ev s as chunk encoding =
     (let r = handler cfg s as in fst r @ trace (res_end cfg ev (snd r) chunk encoding))"

text \<open>The enumerable properties of an object other than \<^verbatim>\<open>cookie\<close>, in their order.\<close>

definition without_cookie :: "jsobject \<Rightarrow> jsobject" where
  "without_cookie ps = filter (\<lambda>p. fst p \<noteq> ''cookie'') ps"

section \<open>Example inputs\<close>

text \<open>
  A request that carries the session id \<^verbatim>\<open>B\<close> over a plain connection, its session with a
  secure cookie, a configuration with \<^verbatim>\<open>resave\<close>, \<^verbatim>\<open>saveUninitialized\<close> and \<^verbatim>\<open>rolling\<close> off,
  \<^verbatim>\<open>proxy: false\<close> and \<^verbatim>\<open>unset: 'destroy'\<close>, and variations of them.
\<close>

definition ex_cookie :: Cookie where
  "ex_cookie = \<lparr> path = ''/'', domain = None, httpOnly = True, secure = True, sameSite = None,
                 expires = None, originalMaxAge = None \<rparr>"

definition ex_session :: Session where
  "ex_session = \<lparr> sess_id = ''B'', cookie = ex_cookie, data = [(''user'', JStr ''alice'')] \<rparr>"

definition ex_request :: request where
  "ex_request = \<lparr> sessionID = Some ''B'', session = Some ex_session,
                  cookies = [''connect.sid'' \<mapsto> ''B''],
                  connection = Some \<lparr> encrypted = False \<rparr>, req_secure = None,
                  headers = Map.empty, pathname = ''/account'' \<rparr>"

definition ex_config :: config where
  "ex_config = \<lparr> name = ''connect.sid'', cookie_opts = no_cookie_options,
                 trustProxy = Some False, rollingSessions = False, resaveSession = False,
                 saveUninitializedSession = False, unsetDestroy = True,
                 generateId = (\<lambda>r. ''C'') \<rparr>"

definition ex_closure :: closure where
  "ex_closure = \<lparr> cookieId = Some ''B'', originalId = Some ''B'',
                  originalHash = Some (hash (own_props ex_session)), ended = False \<rparr>"

definition ex_state :: mw_state where
  "ex_state = \<lparr> st_req = ex_request, st_closure = ex_closure, headersSent = False \<rparr>"

definition ex_error :: store_error where
  "ex_error = \<lparr> code = Some ''ECONNREFUSED'', stack = ''Error: connect ECONNREFUSED'' \<rparr>"

definition ex_env :: env where
  "ex_env = \<lparr> clock = 1000, store_reply = Async (Some ex_error), end_returns = True,
              write_returns = True \<rparr>"

definition ex_options :: options where
  "ex_options = \<lparr> o_name = None, o_key = None, o_cookie = None, o_proxy = None,
                  o_rolling = None, o_resave = None, o_saveUninitialized = None,
                  o_genid = GenidUndefined, o_unset = None \<rparr>"

definition ex_store_get :: "string \<Rightarrow> get_reply" where
  "ex_store_get i = GetFound ex_cookie [(''user'', JStr ''alice'')]"

definition ex_config_rolling :: config where
  "ex_config_rolling = ex_config\<lparr> rollingSessions := True \<rparr>"

definition ex_request_tls :: request where
  "ex_request_tls = ex_request\<lparr> connection := Some \<lparr> encrypted = True \<rparr> \<rparr>"

definition ex_state_tls :: mw_state where
  "ex_state_tls = ex_state\<lparr> st_req := ex_request_tls \<rparr>"

definition ex_env_sync :: env where
  "ex_env_sync = ex_env\<lparr> store_reply := Sync (Some ex_error) \<rparr>"

definition ex_env_ok :: env where
  "ex_env_ok = ex_env\<lparr> store_reply := Async None \<rparr>"

definition ex_request_new :: request where
  "ex_request_new = ex_request\<lparr> sessionID := None, session := None \<rparr>"

definition ex_default_config :: config where
  "ex_default_config = \<lparr> name = ''connect.sid'', cookie_opts = no_cookie_options,
                 trustProxy = None, rollingSessions = False, resaveSession = True,
                 saveUninitializedSession = True, unsetDestroy = False,
                 generateId = (\<lambda>r. ''C'') \<rparr>"

section \<open>The fingerprint\<close>

lemma serialize_members_without_cookie:
  "serialize_members (without_cookie ps) = serialize_members ps"
  unfolding without_cookie_def by (induction ps) (auto split: option.split)

lemma hash_without_cookie: "hash (without_cookie ps) = hash ps"
  by (simp add: hash_def JSON_stringify_def serialize_members_without_cookie)

lemma hash_own_props: "hash (own_props sess) = hash (data sess)"
proof -
  have "serialize_members (own_props sess) = serialize_members (data sess)"
    by (simp add: own_props_def)
  then show ?thesis by (simp add: hash_def JSON_stringify_def)
qed

lemma crc_table_unroll:
  "crc_table n =
     crc_step (crc_step (crc_step (crc_step (crc_step (crc_step (crc_step (crc_step n)))))))"
  by (simp add: crc_table_def eval_nat_numeral)

lemma stringify_a_b:
  "JSON_stringify [(''a'', JNum 1), (''b'', JNum 2)] =
     [CHR ''{'', CHR 0x22, CHR ''a'', CHR 0x22, CHR '':'', CHR ''1'', CHR '','',
      CHR 0x22, CHR ''b'', CHR 0x22, CHR '':'', CHR ''2'', CHR ''}'']"
  by (simp add: JSON_stringify_def quote_def escape_char_def show_int_def show_nat.simps
      digit_char_def)

lemma stringify_b_a:
  "JSON_stringify [(''b'', JNum 2), (''a'', JNum 1)] =
     [CHR ''{'', CHR 0x22, CHR ''b'', CHR 0x22, CHR '':'', CHR ''2'', CHR '','',
      CHR 0x22, CHR ''a'', CHR 0x22, CHR '':'', CHR ''1'', CHR ''}'']"
  by (simp add: JSON_stringify_def quote_def escape_char_def show_int_def show_nat.simps
      digit_char_def)

lemma hash_a_b: "hash [(''a'', JNum 1), (''b'', JNum 2)] = - 817770877"
  by (simp add: hash_def crc32_signed_def stringify_a_b crc32_def crc_update_def
      crc_table_unroll crc_step_def)

lemma hash_b_a: "hash [(''b'', JNum 2), (''a'', JNum 1)] = - 1264482702"
  by (simp add: hash_def crc32_signed_def stringify_b_a crc32_def crc_update_def
      crc_table_unroll crc_step_def)

text \<open>
  C3, as stated, fails: the objects \<^verbatim>\<open>{a: 1, b: 2}\<close> and \<^verbatim>\<open>{b: 2, a: 1}\<close> are the same
  key-value mapping, and \<^verbatim>\<open>JSON.stringify\<close> writes their members in insertion order, so hash
  gives -817770877 for the first and -1264482702 for the second, and a session loaded with
  the first as its data is modified once it holds the second.
\<close>

theorem hash_key_order_counterexample:
  "map_of [(''a'', JNum 1), (''b'', JNum 2)] = map_of [(''b'', JNum 2), (''a'', JNum 1)]
   \<and> hash [(''a'', JNum 1), (''b'', JNum 2)] \<noteq> hash [(''b'', JNum 2), (''a'', JNum 1)]
   \<and> isModified
        \<lparr> cookieId = Some ''B'', originalId = Some ''B'',
          originalHash = Some (hash (own_props (ex_session\<lparr> data := [(''a'', JNum 1), (''b'', JNum 2)] \<rparr>))),
          ended = False \<rparr>
        (ex_session\<lparr> data := [(''b'', JNum 2), (''a'', JNum 1)] \<rparr>)"
proof (intro conjI)
  show "map_of [(''a'', JNum 1), (''b'', JNum 2)] = map_of [(''b'', JNum 2), (''a'', JNum 1)]"
    by (rule ext) simp
  show "hash [(''a'', JNum 1), (''b'', JNum 2)] \<noteq> hash [(''b'', JNum 2), (''a'', JNum 1)]"
    by (simp add: hash_a_b hash_b_a)
  show "isModified
        \<lparr> cookieId = Some ''B'', originalId = Some ''B'',
          originalHash = Some (hash (own_props (ex_session\<lparr> data := [(''a'', JNum 1), (''b'', JNum 2)] \<rparr>))),
          ended = False \<rparr>
        (ex_session\<lparr> data := [(''b'', JNum 2), (''a'', JNum 1)] \<rparr>)"
    by (simp add: isModified_def hash_own_props hash_a_b hash_b_a)
qed

text \<open>
  C3, amended: two objects whose properties other than \<^verbatim>\<open>cookie\<close> are the same keys with
  the same values in the same order have the same fingerprint, wherever \<^verbatim>\<open>cookie\<close> sits
  among the keys.
\<close>

theorem hash_same_order:
  assumes "without_cookie ps = without_cookie qs"
  shows "hash ps = hash qs"
proof -
  have "hash ps = hash (without_cookie ps)" by (simp add: hash_without_cookie)
  also have "\<dots> = hash (without_cookie qs)" using assms by simp
  also have "\<dots> = hash qs" by (simp add: hash_without_cookie)
  finally show ?thesis .
qed

theorem hash_same_order_witness:
  "without_cookie [(''cookie'', JNull), (''a'', JNum 1), (''b'', JNum 2)]
     = without_cookie [(''a'', JNum 1), (''cookie'', JBool True), (''b'', JNum 2)]
   \<and> hash [(''cookie'', JNull), (''a'', JNum 1), (''b'', JNum 2)]
     = hash [(''a'', JNum 1), (''cookie'', JBool True), (''b'', JNum 2)]"
proof -
  have h: "without_cookie [(''cookie'', JNull), (''a'', JNum 1), (''b'', JNum 2)]
     = without_cookie [(''a'', JNum 1), (''cookie'', JBool True), (''b'', JNum 2)]"
    by (simp add: without_cookie_def)
  show ?thesis using h hash_same_order [OF h] by simp
qed

text \<open>
  C9: two objects that differ only in the value of their \<^verbatim>\<open>cookie\<close> property have the same
  fingerprint, and replacing the cookie of a session does not change \<open>isModified\<close>.
\<close>

theorem hash_ignores_cookie:
  "hash (ps @ (''cookie'', c) # qs) = hash (ps @ (''cookie'', c') # qs)
   \<and> isModified cl (sess\<lparr> cookie := ck \<rparr>) = isModified cl sess"
proof
  have "without_cookie (ps @ (''cookie'', c) # qs) = without_cookie (ps @ (''cookie'', c') # qs)"
    by (simp add: without_cookie_def)
  then have "hash (without_cookie (ps @ (''cookie'', c) # qs))
      = hash (without_cookie (ps @ (''cookie'', c') # qs))"
    by simp
  then show "hash (ps @ (''cookie'', c) # qs) = hash (ps @ (''cookie'', c') # qs)"
    by (simp only: hash_without_cookie)
  show "isModified cl (sess\<lparr> cookie := ck \<rparr>) = isModified cl sess"
    by (simp add: isModified_def hash_own_props)
qed

theorem hash_ignores_cookie_witness:
  "hash ([(''user'', JStr ''alice'')] @ (''cookie'', JNull) # [(''views'', JNum 3)])
     = hash ([(''user'', JStr ''alice'')] @ (''cookie'', JBool True) # [(''views'', JNum 3)])
   \<and> isModified ex_closure (ex_session\<lparr> cookie := new_Cookie 1000 no_cookie_options \<rparr>)
     = isModified ex_closure ex_session"
  by (rule hash_ignores_cookie)

section \<open>Traces of the response hooks\<close>

lemma filter_on_headers:
  assumes "\<And>n v. \<not> P (SetCookie n v)"
  shows "filter P (on_headers cfg cl req) = []"
  using assms by (simp add: on_headers_def split: option.split)

lemma filter_respond:
  assumes "\<And>n v. \<not> P (SetCookie n v)"
  shows "filter P (respond cfg s e) = filter P [e]"
  using assms by (simp add: respond_def filter_on_headers)

lemma filter_console_error:
  assumes "\<And>m. \<not> P (ConsoleError m)"
  shows "filter P (console_error err) = []"
  using assms by (simp add: console_error_def split: option.split)

lemma filter_commit:
  assumes "\<And>n v. \<not> P (SetCookie n v)" and "\<And>m. \<not> P (ConsoleError m)"
  shows "filter P (snd (commit cfg ev s call chunk encoding)) =
           (case store_reply ev of
              Sync err \<Rightarrow> filter P [call, StoreCallback err, End (Some (chunk, encoding))]
            | Async err \<Rightarrow> filter P [call, Write chunk encoding, StoreCallback err, End None])"
  using assms by (simp add: commit_def filter_respond filter_console_error split: reply.split)

lemma resetMaxAge_fields [simp]:
  "sess_id (resetMaxAge t sess) = sess_id sess"
  "data (resetMaxAge t sess) = data sess"
  "secure (cookie (resetMaxAge t sess)) = secure (cookie sess)"
  by (simp_all add: resetMaxAge_def split: option.split)

lemma isModified_resetMaxAge [simp]:
  "isModified cl (resetMaxAge t sess) = isModified cl sess"
  by (simp add: isModified_def hash_own_props)

lemma shouldSave_resetMaxAge:
  "shouldSave cfg (cl\<lparr>ended := True\<rparr>) (req\<lparr>session := Some (resetMaxAge t sess)\<rparr>) (resetMaxAge t sess)
     = shouldSave cfg cl req sess"
  by (simp add: shouldSave_def isModified_def hash_own_props)

lemma trace_attached:
  assumes "\<not> ended (st_closure s)" and "session (st_req s) = Some sess"
  shows "filter P (trace (res_end cfg ev s chunk encoding)) =
     (let sess' = resetMaxAge (clock ev) sess;
          s2 = s\<lparr> st_closure := (st_closure s)\<lparr> ended := True \<rparr>,
                  st_req := (st_req s)\<lparr> session := Some sess' \<rparr> \<rparr>;
          chunk' = (case chunk of None \<Rightarrow> [] | Some c \<Rightarrow> c)
      in if shouldSave cfg (st_closure s) (st_req s) sess
         then filter P (snd (commit cfg ev s2 (session_save sess') chunk' encoding))
         else filter P (respond cfg s2 (End (Some (chunk', encoding)))))"
  using assms
  by (simp add: res_end_def shouldDestroy_def Let_def shouldSave_resetMaxAge split: prod.split)

lemma ended_after_res_end: "ended (st_closure (after (res_end cfg ev s chunk encoding)))"
  by (simp add: res_end_def Let_def split: prod.split option.split)

lemma destroy_trace:
  assumes "unsetDestroy cfg" and "sessionID (st_req s) = Some sid" and "sid \<noteq> []"
    and "session (st_req s) = None" and "\<not> ended (st_closure s)"
  shows "trace (res_end cfg ev s chunk encoding) =
     (let chunk' = (case chunk of None \<Rightarrow> [] | Some c \<Rightarrow> c)
      in case store_reply ev of
           Sync err \<Rightarrow>
             [StoreDestroy (Some sid), StoreCallback err] @ console_error err
               @ [End (Some (chunk', encoding))]
         | Async err \<Rightarrow>
             [StoreDestroy (Some sid), Write chunk' encoding, StoreCallback err]
               @ console_error err @ [End None])"
  using assms
  by (simp add: res_end_def shouldDestroy_def truthy_def Let_def commit_def respond_def
      on_headers_def split: reply.split)

lemma trace_res_end_cases:
  assumes "\<not> ended (st_closure s)"
  shows "(\<exists>s' call c. trace (res_end cfg ev s chunk encoding) = snd (commit cfg ev s' call c encoding)
            \<and> ret (res_end cfg ev s chunk encoding) = fst (commit cfg ev s' call c encoding)
            \<and> (is_StoreSet call \<or> is_StoreDestroy call))
         \<or> (\<exists>s' c. trace (res_end cfg ev s chunk encoding) = respond cfg s' (End (Some (c, encoding))))"
proof (cases "shouldDestroy cfg (st_req s)")
  case True
  let ?s1 = "s\<lparr> st_closure := (st_closure s)\<lparr> ended := True \<rparr> \<rparr>"
  let ?c = "case chunk of None \<Rightarrow> [] | Some c \<Rightarrow> c"
  from assms True have "trace (res_end cfg ev s chunk encoding) =
      snd (commit cfg ev ?s1 (StoreDestroy (sessionID (st_req s))) ?c encoding)"
    by (simp add: res_end_def Let_def case_prod_unfold)
  moreover from assms True have "ret (res_end cfg ev s chunk encoding) =
      fst (commit cfg ev ?s1 (StoreDestroy (sessionID (st_req s))) ?c encoding)"
    by (simp add: res_end_def Let_def case_prod_unfold)
  moreover have "is_StoreDestroy (StoreDestroy (sessionID (st_req s)))" by simp
  ultimately show ?thesis by blast
next
  case False
  show ?thesis
  proof (cases "session (st_req s)")
    case None
    with assms False have "trace (res_end cfg ev s chunk encoding) =
        respond cfg (s\<lparr> st_closure := (st_closure s)\<lparr> ended := True \<rparr> \<rparr>)
          (End (Some (case chunk of None \<Rightarrow> [] | Some c \<Rightarrow> c, encoding)))"
      by (simp add: res_end_def Let_def)
    then show ?thesis by blast
  next
    case (Some sess)
    let ?s2 = "s\<lparr> st_closure := (st_closure s)\<lparr> ended := True \<rparr>,
                  st_req := (st_req s)\<lparr> session := Some (resetMaxAge (clock ev) sess) \<rparr> \<rparr>"
    let ?c = "case chunk of None \<Rightarrow> [] | Some c \<Rightarrow> c"
    show ?thesis
    proof (cases "shouldSave cfg (st_closure s) (st_req s) sess")
      case True
      with assms False Some have "trace (res_end cfg ev s chunk encoding) =
          snd (commit cfg ev ?s2 (session_save (resetMaxAge (clock ev) sess)) ?c encoding)"
        by (simp add: res_end_def Let_def case_prod_unfold shouldSave_resetMaxAge)
      moreover from assms False Some True have "ret (res_end cfg ev s chunk encoding) =
          fst (commit cfg ev ?s2 (session_save (resetMaxAge (clock ev) sess)) ?c encoding)"
        by (simp add: res_end_def Let_def case_prod_unfold shouldSave_resetMaxAge)
      moreover have "is_StoreSet (session_save (resetMaxAge (clock ev) sess))"
        by (simp add: session_save_def)
      ultimately show ?thesis by blast
    next
      case no: False
      with assms False Some have "trace (res_end cfg ev s chunk encoding) =
          respond cfg ?s2 (End (Some (?c, encoding)))"
        by (simp add: res_end_def Let_def shouldSave_resetMaxAge)
      then show ?thesis by blast
    qed
  qed
qed

lemma commit_ret:
  "fst (commit cfg ev s call c encoding) =
     (case store_reply ev of Sync err \<Rightarrow> end_returns ev | Async err \<Rightarrow> write_returns ev)"
  by (simp add: commit_def split: reply.split)

lemma loaded_session_state:
  assumes "name cfg = ''connect.sid''" and "cookie_opts cfg = no_cookie_options"
  shows "session_mw cfg True now ex_store_get (ex_request_new\<lparr> connection := c \<rparr>) =
           \<lparr> mw_req = ex_request\<lparr> connection := c \<rparr>, mw_closure = Some ex_closure,
             mw_trace = [StoreGet ''B'', Next None] \<rparr>"
  using assms
  by (simp add: session_mw_def ex_request_new_def ex_request_def getcookie_def truthy_def
      or_else_def no_cookie_options_def Let_def ex_store_get_def createSession_def ex_closure_def
      own_props_def ex_session_def)

lemma handler_append:
  "handler cfg s (as @ bs) =
     (fst (handler cfg s as) @ fst (handler cfg (snd (handler cfg s as)) bs),
      snd (handler cfg (snd (handler cfg s as)) bs))"
  by (induction cfg s as rule: handler.induct) (simp_all add: Let_def)

lemma handler_assigns:
  assumes "\<forall>a \<in> set as. is_Assign a"
  shows "fst (handler cfg s as) = []"
    and "st_closure (snd (handler cfg s as)) = st_closure s"
    and "sessionID (st_req (snd (handler cfg s as))) = sessionID (st_req s)"
  using assms by (induction cfg s as rule: handler.induct) simp_all

lemma handler_writes_unset:
  assumes "\<forall>a \<in> set as. \<not> is_Assign a" and "session (st_req s) = None"
  shows "fst (handler cfg s as) = concat (map write_event as)"
    and "st_closure (snd (handler cfg s as)) = st_closure s"
    and "st_req (snd (handler cfg s as)) = st_req s"
  using assms
  by (induction cfg s as rule: handler.induct)
     (simp_all add: Let_def respond_def on_headers_def)

lemma filter_write_events:
  assumes "\<And>c e. \<not> P (Write c e)"
  shows "filter P (concat (map write_event as)) = []"
proof (induction as)
  case Nil
  show ?case by simp
next
  case (Cons a as)
  with assms show ?case by (cases a) simp_all
qed

lemma commit_error_trace:
  assumes "store_reply ev = Sync (Some err) \<or> store_reply ev = Async (Some err)"
    and "is_StoreSet call \<or> is_StoreDestroy call"
  shows "filter is_Next (snd (commit cfg ev s call c encoding)) = []"
    and "ConsoleError (stack err) \<in> set (snd (commit cfg ev s call c encoding))"
    and "length (filter is_End (snd (commit cfg ev s call c encoding))) = 1"
proof -
  from assms(2) have k: "\<not> is_Next call \<and> \<not> is_End call" by (cases call) auto
  from assms(1) k show "filter is_Next (snd (commit cfg ev s call c encoding)) = []"
    by (auto simp add: filter_commit)
  from assms(1) show "ConsoleError (stack err) \<in> set (snd (commit cfg ev s call c encoding))"
    by (auto simp add: commit_def console_error_def)
  from assms(1) k show "length (filter is_End (snd (commit cfg ev s call c encoding))) = 1"
    by (auto simp add: filter_commit)
qed

section \<open>Saving at the end of the response\<close>

text \<open>
  C1: when \<^verbatim>\<open>res.end\<close> runs for the first time with a session attached, the session is
  saved exactly when: if the id of the request differs from the id its cookie carried
  (\<open>cookieId\<close>), then \<open>saveUninitialized\<close> or modified, else \<open>resave\<close> or modified;
  modified means that the fingerprint of the session differs from \<open>originalHash\<close> or its id
  from \<open>originalId\<close>. In particular nothing is saved when \<open>resave\<close> is off, the id is
  unchanged and the session is unmodified.
\<close>

theorem shouldSave_decides_save:
  assumes "\<not> ended (st_closure s)" and "session (st_req s) = Some sess"
  shows "(filter is_StoreSet (trace (res_end cfg ev s chunk encoding)) \<noteq> []) =
           (if cookieId (st_closure s) \<noteq> sessionID (st_req s)
            then saveUninitializedSession cfg
                 \<or> (originalHash (st_closure s) \<noteq> Some (hash (own_props sess))
                    \<or> originalId (st_closure s) \<noteq> Some (sess_id sess))
            else resaveSession cfg
                 \<or> (originalHash (st_closure s) \<noteq> Some (hash (own_props sess))
                    \<or> originalId (st_closure s) \<noteq> Some (sess_id sess)))
         \<and> (\<not> resaveSession cfg \<and> cookieId (st_closure s) = sessionID (st_req s)
              \<and> originalHash (st_closure s) = Some (hash (own_props sess))
              \<and> originalId (st_closure s) = Some (sess_id sess)
            \<longrightarrow> filter is_StoreSet (trace (res_end cfg ev s chunk encoding)) = [])"
proof -
  have save: "(filter is_StoreSet (trace (res_end cfg ev s chunk encoding)) \<noteq> [])
      = shouldSave cfg (st_closure s) (st_req s) sess"
    by (simp add: trace_attached [OF assms] Let_def filter_commit filter_respond session_save_def
        split: reply.split)
  show ?thesis
    using save by (auto simp add: shouldSave_def isModified_def)
qed

theorem shouldSave_decides_save_witness:
  "\<not> ended (st_closure ex_state) \<and> session (st_req ex_state) = Some ex_session
   \<and> \<not> resaveSession ex_config \<and> cookieId (st_closure ex_state) = sessionID (st_req ex_state)
   \<and> originalHash (st_closure ex_state) = Some (hash (own_props ex_session))
   \<and> originalId (st_closure ex_state) = Some (sess_id ex_session)
   \<and> filter is_StoreSet (trace (res_end ex_config ex_env ex_state None None)) = []"
proof -
  have h1: "\<not> ended (st_closure ex_state)"
    by (simp add: ex_state_def ex_closure_def)
  have h2: "session (st_req ex_state) = Some ex_session"
    by (simp add: ex_state_def ex_request_def)
  have h3: "\<not> resaveSession ex_config \<and> cookieId (st_closure ex_state) = sessionID (st_req ex_state)
      \<and> originalHash (st_closure ex_state) = Some (hash (own_props ex_session))
      \<and> originalId (st_closure ex_state) = Some (sess_id ex_session)"
    by (simp add: ex_state_def ex_closure_def ex_request_def ex_config_def ex_session_def)
  show ?thesis
    using h1 h2 h3 shouldSave_decides_save [OF h1 h2, where cfg = ex_config and ev = ex_env
        and chunk = None and encoding = None]
    by blast
qed

text \<open>
  C10: with the \<open>resave\<close> and \<open>saveUninitialized\<close> options left out, both are on in
  the configuration, \<open>shouldSave\<close> holds for every attached session, modified or not, new
  or not, and the first \<^verbatim>\<open>res.end\<close> saves it.
\<close>

theorem defaults_save_every_session:
  assumes "o_resave opts = None" and "o_saveUninitialized opts = None"
    and "session_setup generateSessionId opts = Inr cfg"
    and "\<not> ended (st_closure s)" and "session (st_req s) = Some sess"
  shows "resaveSession cfg \<and> saveUninitializedSession cfg
         \<and> shouldSave cfg (st_closure s) (st_req s) sess
         \<and> filter is_StoreSet (trace (res_end cfg ev s chunk encoding)) \<noteq> []"
proof -
  from assms(1-3) have d: "resaveSession cfg \<and> saveUninitializedSession cfg"
    by (auto simp add: session_setup_def split: if_splits)
  then have sv: "shouldSave cfg (st_closure s) (st_req s) sess"
    by (simp add: shouldSave_def)
  then have "filter is_StoreSet (trace (res_end cfg ev s chunk encoding)) \<noteq> []"
    by (simp add: trace_attached [OF assms(4,5)] Let_def filter_commit session_save_def
        split: reply.split)
  with d sv show ?thesis by simp
qed

theorem defaults_save_every_session_witness:
  "o_resave ex_options = None \<and> o_saveUninitialized ex_options = None
   \<and> session_setup (\<lambda>r. ''C'') ex_options = Inr ex_default_config
   \<and> \<not> ended (st_closure ex_state) \<and> session (st_req ex_state) = Some ex_session
   \<and> cookieId (st_closure ex_state) = sessionID (st_req ex_state)
   \<and> \<not> isModified (st_closure ex_state) ex_session
   \<and> filter is_StoreSet (trace (res_end ex_default_config ex_env ex_state None None)) \<noteq> []"
proof -
  have h1: "o_resave ex_options = None" by (simp add: ex_options_def)
  have h2: "o_saveUninitialized ex_options = None" by (simp add: ex_options_def)
  have h3: "session_setup (\<lambda>r. ''C'') ex_options = Inr ex_default_config"
    by (simp add: session_setup_def ex_options_def ex_default_config_def truthy_def or_else_def)
  have h4: "\<not> ended (st_closure ex_state)" by (simp add: ex_state_def ex_closure_def)
  have h5: "session (st_req ex_state) = Some ex_session" by (simp add: ex_state_def ex_request_def)
  have h6: "cookieId (st_closure ex_state) = sessionID (st_req ex_state)"
    by (simp add: ex_state_def ex_request_def ex_closure_def)
  have h7: "\<not> isModified (st_closure ex_state) ex_session"
    by (simp add: isModified_def ex_state_def ex_closure_def ex_session_def)
  show ?thesis
    using h1 h2 h3 h4 h5 h6 h7
      defaults_save_every_session [OF h1 h2 h3 h4 h5, where ev = ex_env and chunk = None
        and encoding = None]
    by blast
qed

section \<open>The guard of res.end\<close>

text \<open>
  C2: whatever the first call of the overridden \<^verbatim>\<open>res.end\<close> did, every later call
  returns \<^verbatim>\<open>false\<close>, calls neither the store nor the original \<^verbatim>\<open>end\<close>, and leaves the
  state as it is.
\<close>

theorem res_end_once:
  "res_end cfg ev' (after (res_end cfg ev s chunk encoding)) chunk' encoding' =
     \<lparr> ret = False, trace = [], after = after (res_end cfg ev s chunk encoding) \<rparr>"
  using ended_after_res_end [of cfg ev s chunk encoding] by (simp add: res_end_def)

theorem res_end_once_witness:
  "res_end ex_config ex_env (after (res_end ex_config ex_env ex_state (Some ''bye'') None)) None None =
     \<lparr> ret = False, trace = [], after = after (res_end ex_config ex_env ex_state (Some ''bye'') None) \<rparr>"
  by (rule res_end_once)

section \<open>Destroying an unset session\<close>

lemma destroy_finalization:
  assumes "unsetDestroy cfg" and "sessionID (st_req s) = Some sid" and "sid \<noteq> []"
    and "session (st_req s) = None" and "\<not> ended (st_closure s)"
  shows "filter is_StoreDestroy (trace (res_end cfg ev s chunk encoding)) = [StoreDestroy (Some sid)]
       \<and> filter is_StoreSet (trace (res_end cfg ev s chunk encoding)) = []
       \<and> filter is_SetCookie (trace (res_end cfg ev s chunk encoding)) = []
       \<and> length (filter is_End (trace (res_end cfg ev s chunk encoding))) = 1
       \<and> (\<exists>pre err post. trace (res_end cfg ev s chunk encoding) = pre @ StoreCallback err # post
            \<and> filter is_End pre = [])"
proof (cases "store_reply ev")
  case (Sync err)
  let ?c = "case chunk of None \<Rightarrow> [] | Some c \<Rightarrow> c"
  have t: "trace (res_end cfg ev s chunk encoding) =
      [StoreDestroy (Some sid)] @ StoreCallback err # (console_error err @ [End (Some (?c, encoding))])"
    using Sync by (simp add: destroy_trace [OF assms] Let_def)
  have "filter is_End [StoreDestroy (Some sid)] = []" by simp
  with t have "\<exists>pre err post. trace (res_end cfg ev s chunk encoding) = pre @ StoreCallback err # post
      \<and> filter is_End pre = []"
    by blast
  then show ?thesis
    by (simp add: t filter_console_error)
next
  case (Async err)
  let ?c = "case chunk of None \<Rightarrow> [] | Some c \<Rightarrow> c"
  have t: "trace (res_end cfg ev s chunk encoding) =
      [StoreDestroy (Some sid), Write ?c encoding] @ StoreCallback err # (console_error err @ [End None])"
    using Async by (simp add: destroy_trace [OF assms] Let_def)
  have "filter is_End [StoreDestroy (Some sid), Write ?c encoding] = []" by simp
  with t have "\<exists>pre err post. trace (res_end cfg ev s chunk encoding) = pre @ StoreCallback err # post
      \<and> filter is_End pre = []"
    by blast
  then show ?thesis
    by (simp add: t filter_console_error)
qed


text \<open>
  C5, as stated, fails: the session for cookie \<^verbatim>\<open>B\<close> is loaded over an encrypted
  connection with \<^verbatim>\<open>rolling\<close> on and \<^verbatim>\<open>unset: 'destroy'\<close>; the handler writes a chunk, then
  sets \<^verbatim>\<open>req.session\<close> to \<^verbatim>\<open>null\<close>, then ends the response. The header listener runs at the
  write, while the session is still attached, and sets the cookie; \<^verbatim>\<open>res.end\<close> then
  destroys the session. The response carries the session cookie.
\<close>

theorem unset_destroy_cookie_counterexample:
  "session_mw ex_config_rolling True 1000 ex_store_get
       (ex_request_new\<lparr> connection := Some \<lparr> encrypted = True \<rparr> \<rparr>)
     = \<lparr> mw_req = st_req ex_state_tls, mw_closure = Some (st_closure ex_state_tls),
         mw_trace = [StoreGet ''B'', Next None] \<rparr>
   \<and> \<not> headersSent ex_state_tls
   \<and> unsetDestroy ex_config_rolling
   \<and> sessionID (st_req (snd (handler ex_config_rolling ex_state_tls
        [WriteChunk ''x'' None, Assign None]))) = Some ''B''
   \<and> session (st_req (snd (handler ex_config_rolling ex_state_tls
        [WriteChunk ''x'' None, Assign None]))) = None
   \<and> \<not> ended (st_closure (snd (handler ex_config_rolling ex_state_tls
        [WriteChunk ''x'' None, Assign None])))
   \<and> response_trace ex_config_rolling ex_env_ok ex_state_tls
        [WriteChunk ''x'' None, Assign None] None None
     = [SetCookie ''connect.sid'' (Some ''B''), Write ''x'' None,
        StoreDestroy (Some ''B''), Write [] None, StoreCallback None, End None]"
proof (intro conjI)
  have "session_mw ex_config_rolling True 1000 ex_store_get
       (ex_request_new\<lparr> connection := Some \<lparr> encrypted = True \<rparr> \<rparr>)
     = \<lparr> mw_req = ex_request\<lparr> connection := Some \<lparr> encrypted = True \<rparr> \<rparr>,
         mw_closure = Some ex_closure, mw_trace = [StoreGet ''B'', Next None] \<rparr>"
    by (rule loaded_session_state) (simp_all add: ex_config_rolling_def ex_config_def)
  then show "session_mw ex_config_rolling True 1000 ex_store_get
       (ex_request_new\<lparr> connection := Some \<lparr> encrypted = True \<rparr> \<rparr>)
     = \<lparr> mw_req = st_req ex_state_tls, mw_closure = Some (st_closure ex_state_tls),
         mw_trace = [StoreGet ''B'', Next None] \<rparr>"
    by (simp add: ex_state_tls_def ex_state_def ex_request_tls_def)
  show "\<not> headersSent ex_state_tls"
    by (simp add: ex_state_tls_def ex_state_def)
  show "unsetDestroy ex_config_rolling"
    by (simp add: ex_config_rolling_def ex_config_def)
  show "sessionID (st_req (snd (handler ex_config_rolling ex_state_tls
        [WriteChunk ''x'' None, Assign None]))) = Some ''B''"
    by (simp add: Let_def ex_state_tls_def ex_request_tls_def ex_request_def)
  show "session (st_req (snd (handler ex_config_rolling ex_state_tls
        [WriteChunk ''x'' None, Assign None]))) = None"
    by (simp add: Let_def)
  show "\<not> ended (st_closure (snd (handler ex_config_rolling ex_state_tls
        [WriteChunk ''x'' None, Assign None])))"
    by (simp add: Let_def ex_state_tls_def ex_state_def ex_closure_def)
  have w: "respond ex_config_rolling ex_state_tls (Write ''x'' None)
      = [SetCookie ''connect.sid'' (Some ''B''), Write ''x'' None]"
    by (simp add: respond_def on_headers_def shouldSetCookie_def issecure_def
        connection_encrypted_def ex_state_tls_def ex_state_def ex_request_tls_def ex_request_def
        ex_config_rolling_def ex_config_def)
  have d: "trace (res_end ex_config_rolling ex_env_ok
        (ex_state_tls\<lparr> headersSent := True,
                        st_req := (st_req ex_state_tls)\<lparr> session := None \<rparr> \<rparr>) None None)
      = [StoreDestroy (Some ''B''), Write [] None, StoreCallback None, End None]"
    by (simp add: destroy_trace [where sid = "''B''"] Let_def console_error_def
        ex_state_tls_def ex_state_def ex_request_tls_def ex_request_def ex_closure_def
        ex_config_rolling_def ex_config_def ex_env_ok_def ex_env_def)
  show "response_trace ex_config_rolling ex_env_ok ex_state_tls
        [WriteChunk ''x'' None, Assign None] None None
     = [SetCookie ''connect.sid'' (Some ''B''), Write ''x'' None,
        StoreDestroy (Some ''B''), Write [] None, StoreCallback None, End None]"
    by (simp add: response_trace_def Let_def w d)
qed

text \<open>
  C5, amended: with \<^verbatim>\<open>unset: 'destroy'\<close> and a session id on the request, when the handler
  sets \<^verbatim>\<open>req.session\<close> to \<^verbatim>\<open>null\<close> before anything of the response has been written, and
  attaches no session afterwards, then over the whole response, whatever it writes before
  it ends it, \<^verbatim>\<open>store.destroy\<close> is called with that id, once, nothing is saved, no cookie is
  set, and the original \<^verbatim>\<open>end\<close> is called exactly once, after the store has run the
  callback.
\<close>

theorem unset_destroy_response:
  assumes "unsetDestroy cfg" and "sessionID (st_req s) = Some sid" and "sid \<noteq> []"
    and "\<not> ended (st_closure s)" and "\<not> headersSent s"
    and "\<forall>a \<in> set before. is_Assign a" and "\<forall>a \<in> set later. \<not> is_Assign a"
  shows "filter is_StoreDestroy
           (response_trace cfg ev s (before @ Assign None # later) chunk encoding)
           = [StoreDestroy (Some sid)]
       \<and> filter is_StoreSet
           (response_trace cfg ev s (before @ Assign None # later) chunk encoding) = []
       \<and> filter is_SetCookie
           (response_trace cfg ev s (before @ Assign None # later) chunk encoding) = []
       \<and> length (filter is_End
           (response_trace cfg ev s (before @ Assign None # later) chunk encoding)) = 1
       \<and> (\<exists>pre err post.
            response_trace cfg ev s (before @ Assign None # later) chunk encoding
              = pre @ StoreCallback err # post
            \<and> filter is_End pre = [])"
proof -
  let ?s1 = "snd (handler cfg s before)"
  let ?s2 = "?s1\<lparr> st_req := (st_req ?s1)\<lparr> session := None \<rparr> \<rparr>"
  let ?s3 = "snd (handler cfg ?s2 later)"
  let ?W = "concat (map write_event later)"
  let ?D = "trace (res_end cfg ev ?s3 chunk encoding)"
  have u: "session (st_req ?s2) = None" by simp
  have f: "fst (handler cfg s (before @ Assign None # later)) = ?W"
    by (simp add: handler_append handler_assigns(1) [OF assms(6)]
        handler_writes_unset(1) [OF assms(7) u])
  have e: "snd (handler cfg s (before @ Assign None # later)) = ?s3"
    by (simp add: handler_append)
  have t: "response_trace cfg ev s (before @ Assign None # later) chunk encoding = ?W @ ?D"
    by (simp only: response_trace_def Let_def f e)
  have r: "st_req ?s3 = st_req ?s2" and c: "st_closure ?s3 = st_closure ?s2"
    by (simp_all only: handler_writes_unset(2,3) [OF assms(7) u])
  have h2: "sessionID (st_req ?s3) = Some sid"
    using assms(2) by (simp add: r handler_assigns(3) [OF assms(6)])
  have h4: "session (st_req ?s3) = None" by (simp add: r)
  have h5: "\<not> ended (st_closure ?s3)"
    using assms(4) by (simp add: c handler_assigns(2) [OF assms(6)])
  note D = destroy_finalization [OF assms(1) h2 assms(3) h4 h5, of ev chunk encoding]
  from D obtain pre err post where p: "?D = pre @ StoreCallback err # post"
    and q: "filter is_End pre = []"
    by blast
  have "?W @ ?D = (?W @ pre) @ StoreCallback err # post" by (simp add: p)
  moreover have "filter is_End (?W @ pre) = []" by (simp add: q filter_write_events)
  ultimately have x: "\<exists>pre err post. ?W @ ?D = pre @ StoreCallback err # post
      \<and> filter is_End pre = []"
    by blast
  from D x show ?thesis
    by (simp add: t filter_write_events)
qed

theorem unset_destroy_response_witness:
  "unsetDestroy ex_config_rolling \<and> sessionID (st_req ex_state_tls) = Some ''B''
   \<and> \<not> ended (st_closure ex_state_tls) \<and> \<not> headersSent ex_state_tls
   \<and> filter is_StoreDestroy
       (response_trace ex_config_rolling ex_env_ok ex_state_tls
          ([] @ Assign None # [WriteChunk ''x'' None]) None None)
       = [StoreDestroy (Some ''B'')]
   \<and> filter is_SetCookie
       (response_trace ex_config_rolling ex_env_ok ex_state_tls
          ([] @ Assign None # [WriteChunk ''x'' None]) None None) = []
   \<and> length (filter is_End
       (response_trace ex_config_rolling ex_env_ok ex_state_tls
          ([] @ Assign None # [WriteChunk ''x'' None]) None None)) = 1"
proof -
  have h1: "unsetDestroy ex_config_rolling"
    by (simp add: ex_config_rolling_def ex_config_def)
  have h2: "sessionID (st_req ex_state_tls) = Some ''B''"
    by (simp add: ex_state_tls_def ex_request_tls_def ex_request_def)
  have h3: "''B'' \<noteq> []" by simp
  have h4: "\<not> ended (st_closure ex_state_tls)"
    by (simp add: ex_state_tls_def ex_state_def ex_closure_def)
  have h5: "\<not> headersSent ex_state_tls"
    by (simp add: ex_state_tls_def ex_state_def)
  have h6: "\<forall>a \<in> set []. is_Assign a" by simp
  have h7: "\<forall>a \<in> set [WriteChunk ''x'' None]. \<not> is_Assign a" by simp
  show ?thesis
    using h1 h2 h4 h5
      unset_destroy_response [OF h1 h2 h3 h4 h5 h6 h7, where ev = ex_env_ok and chunk = None
        and encoding = None]
    by blast
qed

section \<open>Setting the cookie\<close>

text \<open>
  C4: with \<^verbatim>\<open>proxy: false\<close> and a connection that is not encrypted, \<^verbatim>\<open>issecure\<close> is false
  and the header listener sets no cookie for a session whose cookie is secure, whatever
  the headers of the request are, \<^verbatim>\<open>x-forwarded-proto: https\<close> included.
\<close>

theorem secure_cookie_needs_secure_connection:
  assumes "trustProxy cfg = Some False" and "\<not> connection_encrypted req"
    and "session req = Some sess" and "secure (cookie sess)"
  shows "\<not> issecure (req\<lparr> headers := h \<rparr>) (trustProxy cfg)
         \<and> on_headers cfg cl (req\<lparr> headers := h \<rparr>) = []"
  using assms by (simp add: issecure_def on_headers_def connection_encrypted_def)

theorem secure_cookie_needs_secure_connection_witness:
  "trustProxy ex_config = Some False \<and> \<not> connection_encrypted ex_request
   \<and> session ex_request = Some ex_session \<and> secure (cookie ex_session)
   \<and> \<not> issecure (ex_request\<lparr> headers := [''x-forwarded-proto'' \<mapsto> ''https''] \<rparr>)
          (trustProxy ex_config)
   \<and> on_headers ex_config ex_closure
        (ex_request\<lparr> headers := [''x-forwarded-proto'' \<mapsto> ''https''] \<rparr>) = []"
proof -
  have h1: "trustProxy ex_config = Some False" by (simp add: ex_config_def)
  have h2: "\<not> connection_encrypted ex_request"
    by (simp add: connection_encrypted_def ex_request_def)
  have h3: "session ex_request = Some ex_session" by (simp add: ex_request_def)
  have h4: "secure (cookie ex_session)" by (simp add: ex_session_def ex_cookie_def)
  show ?thesis
    using h1 h2 h3 h4
      secure_cookie_needs_secure_connection [OF h1 h2 h3 h4,
        where h = "[''x-forwarded-proto'' \<mapsto> ''https'']" and cl = ex_closure]
    by blast
qed

text \<open>
  C6: with \<^verbatim>\<open>rolling\<close> on, \<open>shouldSetCookie\<close> is true for every request with a session
  attached, whatever the closure variables say about modification; the header listener
  then sets the cookie unless the secure check stops it.
\<close>

theorem rolling_sets_cookie:
  assumes "rollingSessions cfg" and "session req = Some sess"
  shows "shouldSetCookie cfg cl req sess
         \<and> (\<not> (secure (cookie sess) \<and> \<not> issecure req (trustProxy cfg))
            \<longrightarrow> on_headers cfg cl req = [SetCookie (name cfg) (sessionID req)])"
  using assms by (simp add: shouldSetCookie_def on_headers_def)

theorem rolling_sets_cookie_witness:
  "rollingSessions (ex_config\<lparr> rollingSessions := True \<rparr>)
   \<and> session ex_request = Some ex_session
   \<and> shouldSetCookie (ex_config\<lparr> rollingSessions := True \<rparr>) ex_closure ex_request ex_session"
proof -
  have h1: "rollingSessions (ex_config\<lparr> rollingSessions := True \<rparr>)" by simp
  have h2: "session ex_request = Some ex_session" by (simp add: ex_request_def)
  show ?thesis
    using h1 h2 rolling_sets_cookie [OF h1 h2, where cl = ex_closure] by blast
qed

section \<open>Store errors and misses\<close>

text \<open>
  C7, as stated, fails for \<^verbatim>\<open>set\<close>: the session for cookie \<^verbatim>\<open>B\<close> is loaded under the
  default configuration and saved at the end of the response; the store answers the save
  with \<open>ex_error\<close>. The callback prints the stack with \<^verbatim>\<open>console.error\<close> and ends the
  response, and \<^verbatim>\<open>next\<close> is not called with the error.
\<close>

theorem save_error_counterexample:
  "session_mw ex_default_config True 1000 ex_store_get ex_request_new
     = \<lparr> mw_req = st_req ex_state, mw_closure = Some (st_closure ex_state),
         mw_trace = [StoreGet ''B'', Next None] \<rparr>
   \<and> \<not> headersSent ex_state
   \<and> store_reply ex_env_sync = Sync (Some ex_error)
   \<and> trace (res_end ex_default_config ex_env_sync ex_state None None) =
       [StoreSet ''B'' ex_session, StoreCallback (Some ex_error),
        ConsoleError ''Error: connect ECONNREFUSED'', End (Some ([], None))]
   \<and> Next (Some ex_error) \<notin> set (trace (res_end ex_default_config ex_env_sync ex_state None None))"
proof -
  have n: "ex_request_new\<lparr> connection := Some \<lparr> encrypted = False \<rparr> \<rparr> = ex_request_new"
    by (simp add: ex_request_new_def ex_request_def)
  have m: "ex_request\<lparr> connection := Some \<lparr> encrypted = False \<rparr> \<rparr> = ex_request"
    by (simp add: ex_request_def)
  have "session_mw ex_default_config True 1000 ex_store_get
       (ex_request_new\<lparr> connection := Some \<lparr> encrypted = False \<rparr> \<rparr>)
     = \<lparr> mw_req = ex_request\<lparr> connection := Some \<lparr> encrypted = False \<rparr> \<rparr>,
         mw_closure = Some ex_closure, mw_trace = [StoreGet ''B'', Next None] \<rparr>"
    by (rule loaded_session_state) (simp_all add: ex_default_config_def)
  then have l: "session_mw ex_default_config True 1000 ex_store_get ex_request_new
     = \<lparr> mw_req = st_req ex_state, mw_closure = Some (st_closure ex_state),
         mw_trace = [StoreGet ''B'', Next None] \<rparr>"
    by (simp add: n m ex_state_def)
  have r: "resetMaxAge 1000 ex_session = ex_session"
    by (simp add: resetMaxAge_def ex_session_def ex_cookie_def)
  have t: "trace (res_end ex_default_config ex_env_sync ex_state None None) =
       [StoreSet ''B'' ex_session, StoreCallback (Some ex_error),
        ConsoleError ''Error: connect ECONNREFUSED'', End (Some ([], None))]"
    by (simp add: res_end_def ex_state_def ex_closure_def ex_request_def
        ex_env_sync_def ex_env_def ex_default_config_def shouldDestroy_def shouldSave_def
        Let_def r commit_def respond_def on_headers_def console_error_def session_save_def
        ex_error_def issecure_def connection_encrypted_def)
      (simp add: ex_session_def ex_cookie_def)
  show ?thesis
    by (simp add: l t) (simp add: ex_env_sync_def ex_state_def)
qed

text \<open>
  C7, amended: an error of \<^verbatim>\<open>store.get\<close> other than \<^verbatim>\<open>ENOENT\<close> is passed to \<^verbatim>\<open>next\<close>
  and no session is attached; an error of the save or of the destroy at the end of the
  response is printed with \<^verbatim>\<open>console.error\<close>, \<^verbatim>\<open>next\<close> is not called, the original
  \<^verbatim>\<open>end\<close> is still called exactly once, and \<^verbatim>\<open>res.end\<close> returns what the original \<^verbatim>\<open>end\<close>
  or \<^verbatim>\<open>res.write\<close> returned, as it does without an error.
\<close>

theorem store_errors_reported:
  "(session req = None \<and> storeReady
      \<and> 0 = indexOf (pathname req) (or_else (opt_path (cookie_opts cfg)) ''/'')
      \<and> cookies req (name cfg) = Some sid \<and> sid \<noteq> []
      \<and> store_get sid = GetError err \<and> code err \<noteq> Some ''ENOENT''
    \<longrightarrow> mw_trace (session_mw cfg storeReady now store_get req) = [StoreGet sid, Next (Some err)]
        \<and> session (mw_req (session_mw cfg storeReady now store_get req)) = None)
   \<and> (\<not> ended (st_closure s)
      \<and> (store_reply ev = Sync (Some err) \<or> store_reply ev = Async (Some err))
      \<and> (filter is_StoreSet (trace (res_end cfg ev s chunk encoding)) \<noteq> []
          \<or> filter is_StoreDestroy (trace (res_end cfg ev s chunk encoding)) \<noteq> [])
    \<longrightarrow> filter is_Next (trace (res_end cfg ev s chunk encoding)) = []
        \<and> ConsoleError (stack err) \<in> set (trace (res_end cfg ev s chunk encoding))
        \<and> length (filter is_End (trace (res_end cfg ev s chunk encoding))) = 1
        \<and> ret (res_end cfg ev s chunk encoding)
            = (case store_reply ev of Sync e \<Rightarrow> end_returns ev | Async e \<Rightarrow> write_returns ev))"
proof (intro conjI impI)
  assume a: "session req = None \<and> storeReady
      \<and> 0 = indexOf (pathname req) (or_else (opt_path (cookie_opts cfg)) ''/'')
      \<and> cookies req (name cfg) = Some sid \<and> sid \<noteq> []
      \<and> store_get sid = GetError err \<and> code err \<noteq> Some ''ENOENT''"
  then have c: "Some ''ENOENT'' \<noteq> code err" by auto
  from a c show "mw_trace (session_mw cfg storeReady now store_get req) = [StoreGet sid, Next (Some err)]"
    by (simp add: session_mw_def getcookie_def truthy_def or_else_def Let_def)
  from a c show "session (mw_req (session_mw cfg storeReady now store_get req)) = None"
    by (simp add: session_mw_def getcookie_def truthy_def or_else_def Let_def)
next
  assume b: "\<not> ended (st_closure s)
      \<and> (store_reply ev = Sync (Some err) \<or> store_reply ev = Async (Some err))
      \<and> (filter is_StoreSet (trace (res_end cfg ev s chunk encoding)) \<noteq> []
          \<or> filter is_StoreDestroy (trace (res_end cfg ev s chunk encoding)) \<noteq> [])"
  let ?t = "trace (res_end cfg ev s chunk encoding)"
  from b have e: "store_reply ev = Sync (Some err) \<or> store_reply ev = Async (Some err)" by simp
  from b have "\<not> (\<exists>s' c. ?t = respond cfg s' (End (Some (c, encoding))))"
    by (auto simp add: filter_respond)
  with b trace_res_end_cases [of s cfg ev chunk encoding]
  obtain s' call c where t: "?t = snd (commit cfg ev s' call c encoding)"
    and v: "ret (res_end cfg ev s chunk encoding) = fst (commit cfg ev s' call c encoding)"
    and k: "is_StoreSet call \<or> is_StoreDestroy call"
    by blast
  show "filter is_Next ?t = []"
    unfolding t by (rule commit_error_trace(1) [OF e k])
  show "ConsoleError (stack err) \<in> set ?t"
    unfolding t by (rule commit_error_trace(2) [OF e k])
  show "length (filter is_End ?t) = 1"
    unfolding t by (rule commit_error_trace(3) [OF e k])
  show "ret (res_end cfg ev s chunk encoding)
      = (case store_reply ev of Sync e \<Rightarrow> end_returns ev | Async e \<Rightarrow> write_returns ev)"
    unfolding v by (rule commit_ret)
qed

theorem store_errors_reported_witness:
  "mw_trace (session_mw ex_default_config True 1000 (\<lambda>i. GetError ex_error) ex_request_new)
     = [StoreGet ''B'', Next (Some ex_error)]
   \<and> session (mw_req (session_mw ex_default_config True 1000 (\<lambda>i. GetError ex_error) ex_request_new)) = None
   \<and> filter is_StoreSet (trace (res_end ex_default_config ex_env_sync ex_state None None)) \<noteq> []
   \<and> filter is_Next (trace (res_end ex_default_config ex_env_sync ex_state None None)) = []
   \<and> ConsoleError (stack ex_error)
       \<in> set (trace (res_end ex_default_config ex_env_sync ex_state None None))
   \<and> length (filter is_End (trace (res_end ex_default_config ex_env_sync ex_state None None))) = 1
   \<and> ret (res_end ex_default_config ex_env_sync ex_state None None) = end_returns ex_env_sync"
proof -
  have a: "session ex_request_new = None \<and> True
      \<and> 0 = indexOf (pathname ex_request_new) (or_else (opt_path (cookie_opts ex_default_config)) ''/'')
      \<and> cookies ex_request_new (name ex_default_config) = Some ''B'' \<and> ''B'' \<noteq> []
      \<and> (\<lambda>i. GetError ex_error) ''B'' = GetError ex_error \<and> code ex_error \<noteq> Some ''ENOENT''"
    by (simp add: ex_request_new_def ex_request_def ex_default_config_def no_cookie_options_def
        or_else_def ex_error_def)
  have b1: "\<not> ended (st_closure ex_state)"
    by (simp add: ex_state_def ex_closure_def)
  have b2: "store_reply ex_env_sync = Sync (Some ex_error)"
    by (simp add: ex_env_sync_def)
  have b3: "filter is_StoreSet (trace (res_end ex_default_config ex_env_sync ex_state None None)) \<noteq> []"
    by (simp add: trace_attached [where sess = ex_session] ex_state_def
        ex_closure_def ex_request_def shouldSave_def ex_default_config_def Let_def filter_commit
        ex_env_sync_def session_save_def)
  have b4: "(case store_reply ex_env_sync of Sync e \<Rightarrow> end_returns ex_env_sync
      | Async e \<Rightarrow> write_returns ex_env_sync) = end_returns ex_env_sync"
    by (simp add: b2)
  show ?thesis
    using a b1 b2 b3
      store_errors_reported [where req = ex_request_new and storeReady = True
        and cfg = ex_default_config and sid = "''B''" and store_get = "\<lambda>i. GetError ex_error"
        and err = ex_error and now = 1000 and s = ex_state and ev = ex_env_sync
        and chunk = None and encoding = None]
    unfolding b4 by blast
qed

text \<open>
  C8: when the cookie carries an id and the store reports no session for it (a falsy
  session, or an error with code \<^verbatim>\<open>ENOENT\<close>), \<^verbatim>\<open>next\<close> is called without an error, a
  new session with the id \<^verbatim>\<open>generateId\<close> returns is attached, and \<open>originalId\<close> and
  \<open>originalHash\<close> are the id and the fingerprint of that new session.
\<close>

theorem store_miss_generates:
  assumes "session req = None" and "storeReady"
    and "0 = indexOf (pathname req) (or_else (opt_path (cookie_opts cfg)) ''/'')"
    and "cookies req (name cfg) = Some sid" and "sid \<noteq> []"
    and "store_get sid = GetNone \<or> (\<exists>err. store_get sid = GetError err \<and> code err = Some ''ENOENT'')"
  shows "let r = session_mw cfg storeReady now store_get req;
             new_id = generateId cfg (req\<lparr> sessionID := Some sid \<rparr>);
             fresh = \<lparr> sess_id = new_id, cookie = new_Cookie now (cookie_opts cfg), data = [] \<rparr>
         in mw_trace r = [StoreGet sid, Next None]
            \<and> sessionID (mw_req r) = Some new_id
            \<and> session (mw_req r) = Some fresh
            \<and> mw_closure r = Some \<lparr> cookieId = Some sid, originalId = Some new_id,
                                     originalHash = Some (hash (own_props fresh)), ended = False \<rparr>"
proof -
  from assms(6) show ?thesis
  proof
    assume "store_get sid = GetNone"
    with assms(1-5) show ?thesis
      by (simp add: session_mw_def getcookie_def truthy_def or_else_def Let_def generate_def
          store_generate_def)
  next
    assume "\<exists>err. store_get sid = GetError err \<and> code err = Some ''ENOENT''"
    then obtain err where "store_get sid = GetError err" and "code err = Some ''ENOENT''"
      by blast
    with assms(1-5) show ?thesis
      by (simp add: session_mw_def getcookie_def truthy_def or_else_def Let_def generate_def
          store_generate_def)
  qed
qed

theorem store_miss_generates_witness:
  "session ex_request_new = None
   \<and> cookies ex_request_new (name ex_config) = Some ''B''
   \<and> mw_trace (session_mw ex_config True 1000 (\<lambda>i. GetNone) ex_request_new) = [StoreGet ''B'', Next None]
   \<and> sessionID (mw_req (session_mw ex_config True 1000 (\<lambda>i. GetNone) ex_request_new)) = Some ''C''
   \<and> session (mw_req (session_mw ex_config True 1000 (\<lambda>i. GetNone) ex_request_new))
       = Some \<lparr> sess_id = ''C'', cookie = new_Cookie 1000 no_cookie_options, data = [] \<rparr>"
proof -
  have h1: "session ex_request_new = None" by (simp add: ex_request_new_def)
  have h2: "True" by simp
  have h3: "0 = indexOf (pathname ex_request_new) (or_else (opt_path (cookie_opts ex_config)) ''/'')"
    by (simp add: ex_request_new_def ex_request_def ex_config_def no_cookie_options_def or_else_def)
  have h4: "cookies ex_request_new (name ex_config) = Some ''B''"
    by (simp add: ex_request_new_def ex_request_def ex_config_def)
  have h5: "''B'' \<noteq> []" by simp
  have h6: "(\<lambda>i. GetNone) ''B'' = GetNone
      \<or> (\<exists>err. (\<lambda>i. GetNone) ''B'' = GetError err \<and> code err = Some ''ENOENT'')"
    by simp
  have g: "generateId ex_config (ex_request_new\<lparr> sessionID := Some ''B'' \<rparr>) = ''C''"
    by (simp add: ex_config_def)
  have c: "cookie_opts ex_config = no_cookie_options" by (simp add: ex_config_def)
  show ?thesis
    using h1 h4 store_miss_generates [OF h1 h2 h3 h4 h5 h6, where now = 1000]
    by (simp add: Let_def g c)
qed

end
